theory Spec2Isabelle
  imports Complex_Main "HOL-Library.Multiset" "HOL-Library.AList" "HOL-Library.Word"
begin

unbundle bit_operations_syntax

section \<open>Dynamic values\<close>

text \<open>
  The program handles decoded JSON: \<open>map[string]interface{}\<close>, \<open>[]interface{}\<close>, \<open>string\<close>,
  \<open>float64\<close>, \<open>bool\<close> and \<open>nil\<close>. A Go string is a byte sequence, as \<^typ>\<open>string\<close> is here.
  A \<open>float64\<close> that \<open>json.Unmarshal\<close> produces is finite, so it is modelled by the rational
  number it denotes. A Go map is an association list; its order stands for the order in which
  a \<open>range\<close> loop happens to visit the map, which Go leaves unspecified. A lookup \<open>m[k]\<close> is
  \<^term>\<open>map_of m k\<close>, and both a missing key and a JSON \<open>null\<close> give the nil interface, on which
  every type assertion fails.
\<close>

datatype json =
    JNull
  | JBool bool
  | JNum rat
  | JStr string
  | JArr "json list"
  | JObj "(string \<times> json) list"

type_synonym json_obj = "(string \<times> json) list"

type_synonym byte = "8 word"

text \<open>\<open>v, ok := x.(string)\<close>: the zero value and \<open>false\<close> when the assertion fails.\<close>

definition assert_string :: "json option \<Rightarrow> string \<times> bool" where
  "assert_string x = (case x of Some (JStr s) \<Rightarrow> (s, True) | _ \<Rightarrow> ('''', False))"

text \<open>\<open>x.(map[string]any)\<close>, \<open>x.([]any)\<close> and \<open>x.(float64)\<close>: \<open>None\<close> when the assertion fails.
  A decoded JSON array is never a nil slice, so for \<open>[]any\<close> "the assertion failed" and
  "the slice is nil" coincide.\<close>

definition assert_map :: "json option \<Rightarrow> json_obj option" where
  "assert_map x = (case x of Some (JObj m) \<Rightarrow> Some m | _ \<Rightarrow> None)"

definition assert_slice :: "json option \<Rightarrow> json list option" where
  "assert_slice x = (case x of Some (JArr xs) \<Rightarrow> Some xs | _ \<Rightarrow> None)"

definition assert_float64 :: "json option \<Rightarrow> rat option" where
  "assert_float64 x = (case x of Some (JNum n) \<Rightarrow> Some n | _ \<Rightarrow> None)"

section \<open>Errors, responses and the outside world\<close>

text \<open>
  Every \<open>fmt.Errorf\<close> of the program is a constructor; a wrapped error (\<open>%w\<close>) is an argument.
  \<open>LibError\<close> is an error value that comes out of a library call (\<open>net/http\<close>,
  \<open>encoding/json\<close>, \<open>crypto/x509\<close>).
\<close>

datatype error =
    LibError string
  | ConfigNil \<comment> \<open>config cannot be nil\<close>
  | FieldRequired string \<comment> \<open>... is required and must be a string / a []interface{}\<close>
  | ElementNotString nat \<comment> \<open>element at index %d is not a string\<close>
  | PemUndecodable \<comment> \<open>GetSHA256: pem.Decode returned no block\<close>
  | CertUnparsable error \<comment> \<open>GetSHA256: x509.ParseCertificate failed: %v\<close>
  | FingerprintFailed error \<comment> \<open>failed to get SHA256 of cert: %w\<close>
  | ListFailed error \<comment> \<open>failed to list certs from Cloud: %w\<close>
  | UploadFailed "error option" \<comment> \<open>failed to upload to Cloud: %w (the error may be nil)\<close>
  | DeleteOldFailed string "error option" \<comment> \<open>failed to delete old cert %s: %w\<close>
  | ApiCallFailed error \<comment> \<open>failed to call Cloud API / Apisix API: %w\<close>
  | CodeNotFound \<comment> \<open>invalid response format: code not found\<close>
  | CloudApiError "json option" \<comment> \<open>cloud API error: %s, with res["msg"]\<close>
  | DataNotFound \<comment> \<open>invalid response format: data not found\<close>
  | KeyNotFound \<comment> \<open>invalid response format: key not found\<close>
  | ApisixApiError "json option" \<comment> \<open>apisix api error: %s, with res["message"]\<close>
  | KeyMismatch string string \<comment> \<open>deleted key mismatch: expected %s, got %s\<close>
  | ItemNotMap \<comment> \<open>invalid response format: cert item is not a map\<close>

record Response =
  Status :: string
  Message :: string
  Result :: json_obj

record Auth =
  AdminKey :: string
  ServerAddress :: string

definition NewAuth :: "string \<Rightarrow> string \<Rightarrow> Auth" where
  "NewAuth adminKey serverAddress = \<lparr>AdminKey = adminKey, ServerAddress = serverAddress\<rparr>"

text \<open>
  An HTTP request as \<open>ApisixAPI\<close> builds it, and the two lines the program prints with
  \<open>fmt.Printf\<close>. The world is what the program has done so far: the requests it has handed
  to the HTTP client and the warnings it has printed. The gateway is a parameter: it answers
  a request, given all earlier requests, with a decoded JSON object or with an error of the
  transport or of the decoder.
\<close>

record request =
  req_method :: string
  req_url :: string
  req_headers :: "(string \<times> string) list"
  req_body :: "json_obj option"

datatype warning =
    DeleteWarning string error \<comment> \<open>Warning: failed to delete cert %s: %v\<close>
  | RollbackWarning string error \<comment> \<open>Warning: failed to rollback cert %s: %v\<close>

record world =
  sent :: "request list"
  printed :: "warning list"

type_synonym gateway = "request list \<Rightarrow> request \<Rightarrow> error + json_obj"

text \<open>The three library functions \<open>GetSHA256\<close> calls are parameters: \<open>pem.Decode\<close> gives the
  bytes of the first block or no block, \<open>x509.ParseCertificate\<close> gives the certificate's
  \<open>Raw\<close> bytes or an error, \<open>sha256.Sum256\<close> gives the digest.\<close>

record libs =
  pem_Decode :: "string \<Rightarrow> byte list option"
  x509_ParseCertificate :: "byte list \<Rightarrow> error + byte list"
  sha256_Sum256 :: "byte list \<Rightarrow> byte list"

section \<open>main.go: the fingerprint\<close>

text \<open>Modelled from the spec: \<open>hex.EncodeToString\<close> belongs to Go's standard library, not
  to the repository; the spec asks for the lowercase hexadecimal encoding, two digits for
  each byte, high nibble first.\<close>

definition hextable :: string where
  "hextable = ''0123456789abcdef''"

fun hex_EncodeToString :: "byte list \<Rightarrow> string" where
  "hex_EncodeToString [] = []"
| "hex_EncodeToString (v # vs) =
     hextable ! unat (drop_bit 4 v) # hextable ! unat (v AND 0x0F) # hex_EncodeToString vs"

definition GetSHA256 :: "libs \<Rightarrow> string \<Rightarrow> error + string" where
  "GetSHA256 l certStr =
     (case pem_Decode l certStr of
        None \<Rightarrow> Inl PemUndecodable
      | Some block_Bytes \<Rightarrow>
          (case x509_ParseCertificate l block_Bytes of
             Inl err \<Rightarrow> Inl (CertUnparsable err)
           | Inr cert_Raw \<Rightarrow> Inr (hex_EncodeToString (sha256_Sum256 l cert_Raw))))"

section \<open>The relation of two domain lists\<close>

text \<open>\<open>cnt\<close> is a \<open>map[string]int\<close>; reading a missing key gives 0 and does not insert it.
  The counters stay below the lengths of the slices, so Go's 64-bit \<open>int\<close> never wraps and
  is modelled by \<^typ>\<open>int\<close>. The copy \<open>cntCopy\<close> of the source is never read and is left out.\<close>

type_synonym counter = "(string \<times> int) list"

definition lookup0 :: "counter \<Rightarrow> string \<Rightarrow> int" where
  "lookup0 cnt s = (case map_of cnt s of None \<Rightarrow> 0 | Some v \<Rightarrow> v)"

text \<open>The body of the first loop: \<open>cnt[s]++\<close>.\<close>

definition count_step :: "counter \<Rightarrow> string \<Rightarrow> counter" where
  "count_step cnt s = AList.update s (lookup0 cnt s + 1) cnt"

text \<open>The body of the loop over \<open>b\<close>: one element of \<open>b\<close> consumes one remaining copy in \<open>cnt\<close>.\<close>

definition match_step :: "counter \<times> int \<Rightarrow> string \<Rightarrow> counter \<times> int" where
  "match_step st s =
     (case st of (cnt, overlap) \<Rightarrow>
        if lookup0 cnt s > 0
        then (AList.update s (lookup0 cnt s - 1) cnt, overlap + 1)
        else (cnt, overlap))"

definition compareSliceRelation :: "string list \<Rightarrow> string list \<Rightarrow> int" where
  "compareSliceRelation a b =
     (if length a = 0 \<or> length b = 0 then 0
      else
        (case foldl match_step (foldl count_step [] a, 0) b of
           (cnt, overlap) \<Rightarrow>
             let exact = (length a = length b \<and> list_all (\<lambda>(k, v). v = 0) cnt)
             in if exact then 2 else if overlap > 0 then 1 else 0))"

section \<open>The client of the gateway\<close>

text \<open>\<open>strings.ToUpper\<close> on ASCII letters; the program passes it the literals \<open>GET\<close>,
  \<open>POST\<close> and \<open>DELETE\<close> only.\<close>

definition upper_char :: "char \<Rightarrow> char" where
  "upper_char c =
     (case map_of (zip ''abcdefghijklmnopqrstuvwxyz'' ''ABCDEFGHIJKLMNOPQRSTUVWXYZ'') c of
        None \<Rightarrow> c
      | Some u \<Rightarrow> u)"

definition ToUpper :: "string \<Rightarrow> string" where
  "ToUpper s = map upper_char s"

text \<open>\<open>ApisixAPI\<close> builds the request and hands it to the HTTP client. What happens from
  there on (the round trip, reading the body, \<open>json.Unmarshal\<close>) is the gateway's answer.\<close>

definition ApisixAPI ::
  "gateway \<Rightarrow> Auth \<Rightarrow> string \<Rightarrow> json_obj \<Rightarrow> string \<Rightarrow> world \<Rightarrow> (error + json_obj) \<times> world" where
  "ApisixAPI gw a apiPath data method0 w =
     (let method = ToUpper method0;
          urlStr = ServerAddress a @ apiPath;
          req =
            (if method = ''GET'' \<or> method = ''DELETE''
             then \<lparr>req_method = method, req_url = urlStr,
                   req_headers = [(''X-API-KEY'', AdminKey a)], req_body = None\<rparr>
             else \<lparr>req_method = method, req_url = urlStr,
                   req_headers = [(''Content-Type'', ''application/json''), (''X-API-KEY'', AdminKey a)],
                   req_body = Some data\<rparr>)
      in (gw (sent w) req, w\<lparr>sent := sent w @ [req]\<rparr>))"

definition uploadCertToApisix ::
  "gateway \<Rightarrow> Auth \<Rightarrow> string \<Rightarrow> string \<Rightarrow> string \<Rightarrow> string list \<Rightarrow> world \<Rightarrow> (error + string) \<times> world" where
  "uploadCertToApisix gw a cert key note domain w =
     (case ApisixAPI gw a ''/ssls''
             [(''cert'', JStr cert), (''key'', JStr key), (''desc'', JStr note),
              (''snis'', JArr (map JStr domain))] ''POST'' w of
        (Inl err, w') \<Rightarrow> (Inl (ApiCallFailed err), w')
      | (Inr res, w') \<Rightarrow>
          (case assert_float64 (map_of res ''code'') of
             None \<Rightarrow> (Inl CodeNotFound, w')
           | Some code \<Rightarrow>
               if code \<noteq> 200 then (Inl (CloudApiError (map_of res ''msg'')), w')
               else
                 (case assert_map (map_of res ''data'') of
                    None \<Rightarrow> (Inl DataNotFound, w')
                  | Some data \<Rightarrow>
                      (case assert_string (map_of data ''key'') of
                         (newKey, ok) \<Rightarrow>
                           if \<not> ok then (Inl KeyNotFound, w') else (Inr newKey, w')))))"

text \<open>Modelled from the spec: \<open>path.Base\<close> belongs to Go's standard library, not to the
  repository; the spec says the identifier the gateway returns is path-extracted (its last
  path segment). As in Go, trailing slashes are dropped first, the empty path gives a dot
  and a path of slashes only gives a slash.\<close>

definition path_Base :: "string \<Rightarrow> string" where
  "path_Base p =
     (if p = [] then ''.''
      else
        let p1 = rev (dropWhile (\<lambda>c. c = CHR ''/'') (rev p));
            p2 = rev (takeWhile (\<lambda>c. c \<noteq> CHR ''/'') (rev p1))
        in if p2 = [] then ''/'' else p2)"

text \<open>The parameter \<open>certKey\<close> of the source is written \<open>delKey\<close> here.\<close>

definition DeleteCertFromApisix ::
  "gateway \<Rightarrow> Auth \<Rightarrow> string \<Rightarrow> world \<Rightarrow> (error + bool) \<times> world" where
  "DeleteCertFromApisix gw a delKey w =
     (case ApisixAPI gw a (''/ssls/'' @ delKey) [] ''DELETE'' w of
        (Inl err, w') \<Rightarrow> (Inl (ApiCallFailed err), w')
      | (Inr res, w') \<Rightarrow>
          (case assert_string (map_of res ''deleted'') of
             (deleted, ok) \<Rightarrow>
               if \<not> ok then (Inl (ApisixApiError (map_of res ''message'')), w')
               else
                 (case assert_string (map_of res ''key'') of
                    (key, ok) \<Rightarrow>
                      if \<not> ok then (Inl KeyNotFound, w')
                      else
                        let reqKey = path_Base key
                        in if reqKey \<noteq> delKey then (Inl (KeyMismatch delKey key), w')
                           else (Inr True, w'))))"

text \<open>The loop of \<open>listCertFromApisix\<close> over the entries of \<open>list\<close>: the first entry that is
  not a map ends it with an error.\<close>

fun list_items :: "(string \<times> json) list \<Rightarrow> error + json_obj list" where
  "list_items [] = Inr []"
| "list_items ((k, cert) # rest) =
     (case assert_map (Some cert) of
        None \<Rightarrow> Inl ItemNotMap
      | Some certMap \<Rightarrow>
          (case list_items rest of
             Inl e \<Rightarrow> Inl e
           | Inr certs \<Rightarrow> Inr (certMap # certs)))"

definition listCertFromApisix ::
  "gateway \<Rightarrow> Auth \<Rightarrow> world \<Rightarrow> (error + json_obj list) \<times> world" where
  "listCertFromApisix gw a w =
     (case ApisixAPI gw a ''/ssls'' [] ''GET'' w of
        (Inl err, w') \<Rightarrow> (Inl (ApiCallFailed err), w')
      | (Inr res, w') \<Rightarrow>
          (case assert_map (map_of res ''list'') of
             None \<Rightarrow> (Inl DataNotFound, w')
           | Some list \<Rightarrow>
               (case list_items list of
                  Inl e \<Rightarrow> (Inl e, w')
                | Inr certs \<Rightarrow> (Inr certs, w'))))"

section \<open>Upload\_bind\<close>

subsection \<open>The parameters\<close>

record params =
  p_cert :: string
  p_key :: string
  p_admin_key :: string
  p_server_address :: string
  p_domain :: "string list"

text \<open>The loop that copies \<open>domains\<close> into \<open>domain\<close>; \<open>i\<close> is the index of the head.\<close>

fun domain_strings :: "nat \<Rightarrow> json list \<Rightarrow> error + string list" where
  "domain_strings i [] = Inr []"
| "domain_strings i (v # vs) =
     (case v of
        JStr str \<Rightarrow>
          (case domain_strings (Suc i) vs of
             Inl e \<Rightarrow> Inl e
           | Inr ds \<Rightarrow> Inr (str # ds))
      | _ \<Rightarrow> Inl (ElementNotString i))"

text \<open>The checks that open \<open>Upload_bind\<close>, up to the copy of the domains. The map \<open>cfg\<close>
  may be nil (\<open>None\<close>).\<close>

definition Upload_bind_params :: "json_obj option \<Rightarrow> error + params" where
  "Upload_bind_params cfg0 =
     (case cfg0 of
        None \<Rightarrow> Inl ConfigNil
      | Some cfg \<Rightarrow>
          (case assert_string (map_of cfg ''cert'') of (certStr, ok1) \<Rightarrow>
             if \<not> ok1 \<or> certStr = '''' then Inl (FieldRequired ''cert'')
             else
          (case assert_string (map_of cfg ''key'') of (keyStr, ok2) \<Rightarrow>
             if \<not> ok2 \<or> keyStr = '''' then Inl (FieldRequired ''key'')
             else
          (case assert_string (map_of cfg ''admin_key'') of (adminKey, ok3) \<Rightarrow>
             if \<not> ok3 \<or> adminKey = '''' then Inl (FieldRequired ''admin_key'')
             else
          (case assert_string (map_of cfg ''server_address'') of (serverAddress, ok4) \<Rightarrow>
             if \<not> ok4 \<or> serverAddress = '''' then Inl (FieldRequired ''server_address'')
             else
          (case assert_slice (map_of cfg ''domain'') of
             None \<Rightarrow> Inl (FieldRequired ''domain'')
           | Some domains \<Rightarrow>
               if length domains = 0 then Inl (FieldRequired ''domain'')
               else
                 (case domain_strings 0 domains of
                    Inl e \<Rightarrow> Inl e
                  | Inr domain \<Rightarrow>
                      Inr \<lparr>p_cert = certStr, p_key = keyStr, p_admin_key = adminKey,
                           p_server_address = serverAddress, p_domain = domain\<rparr>)))))))"

subsection \<open>The scan of the listed certificates\<close>

text \<open>The three variables the scan updates. \<open>deleteMap\<close> is a \<open>map[string]bool\<close>, read as
  \<open>false\<close> where it has no entry.\<close>

record scan_state =
  deleteCertKeyList :: "string list"
  deleteMap :: "string \<Rightarrow> bool"
  certKey :: string

text \<open>The inner loop over \<open>snisAny\<close>: the strings, or \<open>None\<close> (\<open>valid = false\<close>) at the
  first element that is not a string.\<close>

fun snis_strings :: "json list \<Rightarrow> string list option" where
  "snis_strings [] = Some []"
| "snis_strings (v # vs) =
     (case v of
        JStr s \<Rightarrow>
          (case snis_strings vs of
             None \<Rightarrow> None
           | Some snis \<Rightarrow> Some (s # snis))
      | _ \<Rightarrow> None)"

text \<open>One round of the loop over \<open>certServer\<close>.\<close>

definition scan_step :: "string \<Rightarrow> string list \<Rightarrow> scan_state \<Rightarrow> json_obj \<Rightarrow> scan_state" where
  "scan_step note domain st cert =
     (case assert_map (map_of cert ''value'') of
        None \<Rightarrow> st
      | Some value \<Rightarrow>
          let desc = fst (assert_string (map_of value ''desc''));
              id = fst (assert_string (map_of value ''id''));
              relation =
                (case assert_slice (map_of value ''snis'') of
                   None \<Rightarrow> 0
                 | Some snisAny \<Rightarrow>
                     (case snis_strings snisAny of
                        None \<Rightarrow> 0
                      | Some snis \<Rightarrow> compareSliceRelation snis domain));
              snisMatch = (relation = 2);
              snisPartial = (relation = 1);
              st1 =
                (if id \<noteq> '''' \<and> ((desc = note \<and> \<not> snisMatch) \<or> (snisPartial \<and> desc \<noteq> note))
                 then
                   (if \<not> deleteMap st id
                    then st\<lparr>deleteCertKeyList := deleteCertKeyList st @ [id],
                            deleteMap := (deleteMap st)(id := True)\<rparr>
                    else st)
                 else st)
          in if snisMatch \<and> desc = note then st1\<lparr>certKey := id\<rparr> else st1)"

definition Upload_bind_scan :: "string \<Rightarrow> string list \<Rightarrow> json_obj list \<Rightarrow> scan_state" where
  "Upload_bind_scan note domain certServer =
     foldl (scan_step note domain)
       \<lparr>deleteCertKeyList = [], deleteMap = (\<lambda>_. False), certKey = ''''\<rparr> certServer"

subsection \<open>Deleting the superseded certificates\<close>

text \<open>
  The loop over \<open>deleteCertKeyList\<close>; \<open>newKey\<close> is the identifier of the certificate just
  uploaded. It gives the error the function returns with, if any.

  In the source, the statement \<open>_, err := a.DeleteCertFromApisix(certKey)\<close> stands inside the
  block of \<open>if err != nil\<close>. The \<open>err\<close> of the failed deletion was declared in the enclosing
  block of the loop body, so the short declaration declares a new \<open>err\<close>, and the
  \<open>return\<close> at the end of the block reads that one: the error wrapped by \<open>%w\<close> is the
  outcome of the rollback, nil when the rollback succeeded.
\<close>

fun Upload_bind_cleanup ::
  "gateway \<Rightarrow> Auth \<Rightarrow> string \<Rightarrow> string list \<Rightarrow> world \<Rightarrow> error option \<times> world" where
  "Upload_bind_cleanup gw a newKey [] w = (None, w)"
| "Upload_bind_cleanup gw a newKey (delCertKey # rest) w =
     (case DeleteCertFromApisix gw a delCertKey w of
        (Inl err, w1) \<Rightarrow>
          let w2 = w1\<lparr>printed := printed w1 @ [DeleteWarning delCertKey err]\<rparr>
          in (case DeleteCertFromApisix gw a newKey w2 of
                (Inl err', w3) \<Rightarrow>
                  (Some (DeleteOldFailed delCertKey (Some err')),
                   w3\<lparr>printed := printed w3 @ [RollbackWarning newKey err']\<rparr>)
              | (Inr _, w3) \<Rightarrow> (Some (DeleteOldFailed delCertKey None), w3))
      | (Inr _, w1) \<Rightarrow> Upload_bind_cleanup gw a newKey rest w1)"

subsection \<open>The whole function\<close>

definition msg_bound :: string where
  "msg_bound =
     [CHR 0xE7, CHR 0xBB, CHR 0x91, CHR 0xE5, CHR 0xAE, CHR 0x9A,
      CHR 0xE6, CHR 0x88, CHR 0x90, CHR 0xE5, CHR 0x8A, CHR 0x9F]"

definition msg_already_bound :: string where
  "msg_already_bound =
     [CHR 0xE5, CHR 0xB7, CHR 0xB2, CHR 0xE5, CHR 0xAD, CHR 0x98, CHR 0xE5, CHR 0x9C,
      CHR 0xA8, CHR 0xE7, CHR 0xBB, CHR 0x91, CHR 0xE5, CHR 0xAE, CHR 0x9A]"

text \<open>\<open>Upload_bind\<close> from the creation of the client on: list, scan, then upload and delete, or
  reuse. \<^const>\<open>msg_bound\<close> and \<^const>\<open>msg_already_bound\<close> are the UTF-8 bytes of the two
  messages of the source.\<close>

definition Upload_bind_reconcile ::
  "gateway \<Rightarrow> Auth \<Rightarrow> string \<Rightarrow> string \<Rightarrow> string \<Rightarrow> string list \<Rightarrow> world
     \<Rightarrow> (error + Response) \<times> world" where
  "Upload_bind_reconcile gw a certStr keyStr note domain w =
     (case listCertFromApisix gw a w of
        (Inl err, w1) \<Rightarrow> (Inl (ListFailed err), w1)
      | (Inr certServer, w1) \<Rightarrow>
          let st = Upload_bind_scan note domain certServer
          in if certKey st = ''''
             then
               (case uploadCertToApisix gw a certStr keyStr note domain w1 of
                  (Inl err, w2) \<Rightarrow> (Inl (UploadFailed (Some err)), w2)
                | (Inr newKey, w2) \<Rightarrow>
                    if newKey = '''' then (Inl (UploadFailed None), w2)
                    else
                      (case (if length (deleteCertKeyList st) > 0
                             then Upload_bind_cleanup gw a newKey (deleteCertKeyList st) w2
                             else (None, w2)) of
                         (Some e, w3) \<Rightarrow> (Inl e, w3)
                       | (None, w3) \<Rightarrow>
                           (Inr \<lparr>Status = ''success'',
                                 Message = ''Certificate uploaded and bound successfully'',
                                 Result = [(''message'', JStr msg_bound)]\<rparr>, w3)))
             else
               (Inr \<lparr>Status = ''success'',
                     Message = ''Certificate uploaded and bound successfully'',
                     Result = [(''message'', JStr msg_already_bound)]\<rparr>, w1))"

definition Upload_bind ::
  "libs \<Rightarrow> gateway \<Rightarrow> json_obj option \<Rightarrow> world \<Rightarrow> (error + Response) \<times> world" where
  "Upload_bind l gw cfg w =
     (case Upload_bind_params cfg of
        Inl e \<Rightarrow> (Inl e, w)
      | Inr p \<Rightarrow>
          (case GetSHA256 l (p_cert p) of
             Inl err \<Rightarrow> (Inl (FingerprintFailed err), w)
           | Inr sha256 \<Rightarrow>
               Upload_bind_reconcile gw (NewAuth (p_admin_key p) (p_server_address p))
                 (p_cert p) (p_key p) (''allinssl-'' @ sha256) (p_domain p) w))"

section \<open>The vocabulary of the specification\<close>

text \<open>
  The definitions of this section follow the words of the specification, not the code: the
  relation of two domain multisets (its section 4.2), the fields of a listed remote
  certificate object (its sections 3 and 6) and the two conditions of the reconciler (its
  section 4.4). The theorems below compare the code with them.
\<close>

datatype relation = Disjoint | Partial | Exact

text \<open>The numbers the code uses for the three relations.\<close>

fun relation_code :: "relation \<Rightarrow> int" where
  "relation_code Disjoint = 0"
| "relation_code Partial = 1"
| "relation_code Exact = 2"

text \<open>Greedy matching: each desired element takes one identical existing element that is
  still available. The result is the number of matches and the existing elements left
  unmatched.\<close>

fun greedy_match :: "string list \<Rightarrow> string list \<Rightarrow> nat \<times> string list" where
  "greedy_match existing [] = (0, existing)"
| "greedy_match existing (d # desired) =
     (if d \<in> set existing
      then (case greedy_match (remove1 d existing) desired of
              (n, unmatched) \<Rightarrow> (Suc n, unmatched))
      else greedy_match existing desired)"

definition Classify :: "string list \<Rightarrow> string list \<Rightarrow> relation" where
  "Classify existing desired =
     (if existing = [] \<or> desired = [] then Disjoint
      else
        (case greedy_match existing desired of
           (n, unmatched) \<Rightarrow>
             if length existing = length desired \<and> unmatched = [] then Exact
             else if 0 < n then Partial
             else Disjoint))"

text \<open>A listed entry has the shape \<open>{value: {desc, snis, id}}\<close>. A field that is missing or
  of another type reads as the empty string; \<open>snis\<close> that is missing, not a list or holds an
  element that is not a string is malformed (\<open>None\<close>).\<close>

definition entry_field :: "json_obj \<Rightarrow> string \<Rightarrow> json option" where
  "entry_field cert k =
     (case map_of cert ''value'' of
        Some (JObj v) \<Rightarrow> map_of v k
      | _ \<Rightarrow> None)"

definition entry_id :: "json_obj \<Rightarrow> string" where
  "entry_id cert = (case entry_field cert ''id'' of Some (JStr s) \<Rightarrow> s | _ \<Rightarrow> [])"

definition entry_desc :: "json_obj \<Rightarrow> string" where
  "entry_desc cert = (case entry_field cert ''desc'' of Some (JStr s) \<Rightarrow> s | _ \<Rightarrow> [])"

fun is_JStr :: "json \<Rightarrow> bool" where
  "is_JStr (JStr s) = True"
| "is_JStr _ = False"

fun the_JStr :: "json \<Rightarrow> string" where
  "the_JStr (JStr s) = s"
| "the_JStr _ = []"

definition entry_snis :: "json_obj \<Rightarrow> string list option" where
  "entry_snis cert =
     (case entry_field cert ''snis'' of
        Some (JArr xs) \<Rightarrow> if list_all is_JStr xs then Some (map the_JStr xs) else None
      | _ \<Rightarrow> None)"

definition entry_relation :: "string list \<Rightarrow> json_obj \<Rightarrow> relation" where
  "entry_relation domain cert =
     (case entry_snis cert of
        None \<Rightarrow> Disjoint
      | Some snis \<Rightarrow> Classify snis domain)"

text \<open>The object can be reused: same note and exactly the desired domains.\<close>

definition reuse_match :: "string \<Rightarrow> string list \<Rightarrow> json_obj \<Rightarrow> bool" where
  "reuse_match note domain cert \<longleftrightarrow>
     entry_desc cert = note \<and> entry_relation domain cert = Exact"

text \<open>The object is to be deleted: it has an id, and it carries the note with other domains,
  or another note with some of the desired domains.\<close>

definition deletion_candidate :: "string \<Rightarrow> string list \<Rightarrow> json_obj \<Rightarrow> bool" where
  "deletion_candidate note domain cert \<longleftrightarrow>
     entry_id cert \<noteq> [] \<and>
     ((entry_desc cert = note \<and> entry_relation domain cert \<noteq> Exact) \<or>
      (entry_relation domain cert = Partial \<and> entry_desc cert \<noteq> note))"

text \<open>A list of ids as a set: each id once, at its first occurrence.\<close>

definition add_id :: "string list \<Rightarrow> string \<Rightarrow> string list" where
  "add_id ids i = (if i \<in> set ids then ids else ids @ [i])"

definition id_set :: "string list \<Rightarrow> string list" where
  "id_set ids = foldl add_id [] ids"

text \<open>The caller's contract: \<open>cert\<close>, \<open>key\<close>, \<open>admin_key\<close> and \<open>server_address\<close> are non-empty
  strings, \<open>domain\<close> is a non-empty list of strings.\<close>

definition nonempty_string :: "json option \<Rightarrow> bool" where
  "nonempty_string x = (case x of Some (JStr s) \<Rightarrow> s \<noteq> [] | _ \<Rightarrow> False)"

definition nonempty_string_list :: "json option \<Rightarrow> bool" where
  "nonempty_string_list x =
     (case x of Some (JArr xs) \<Rightarrow> xs \<noteq> [] \<and> list_all is_JStr xs | _ \<Rightarrow> False)"

definition valid_params :: "json_obj option \<Rightarrow> bool" where
  "valid_params cfg0 =
     (case cfg0 of
        None \<Rightarrow> False
      | Some cfg \<Rightarrow>
          nonempty_string (map_of cfg ''cert'') \<and>
          nonempty_string (map_of cfg ''key'') \<and>
          nonempty_string (map_of cfg ''admin_key'') \<and>
          nonempty_string (map_of cfg ''server_address'') \<and>
          nonempty_string_list (map_of cfg ''domain''))"

text \<open>The request \<open>Delete(id)\<close> sends, and what the specification asks of the gateway's
  answer: it confirms the deletion (a field \<open>deleted\<close> that is a string) and the last path
  segment of the key it returns is the requested id.\<close>

definition delete_request :: "Auth \<Rightarrow> string \<Rightarrow> request" where
  "delete_request a delKey =
     \<lparr>req_method = ''DELETE'', req_url = ServerAddress a @ ''/ssls/'' @ delKey,
      req_headers = [(''X-API-KEY'', AdminKey a)], req_body = None\<rparr>"


section \<open>Auxiliary notions of the proofs\<close>

text \<open>An id enters the deletion list and the map together; the scan keeps the two equal as
  sets.\<close>

definition mark_deleted :: "scan_state \<Rightarrow> string \<Rightarrow> scan_state" where
  "mark_deleted st i =
     st\<lparr>deleteCertKeyList := deleteCertKeyList st @ [i], deleteMap := (deleteMap st)(i := True)\<rparr>"

definition consistent :: "scan_state \<Rightarrow> bool" where
  "consistent st \<longleftrightarrow> (\<forall>i. deleteMap st i \<longleftrightarrow> i \<in> set (deleteCertKeyList st))"

section \<open>Sample answers of the gateway\<close>

text \<open>A listed entry \<open>{value: {id, desc, snis}}\<close>, and one whose \<open>value\<close> has no \<open>id\<close>.\<close>

definition listed_object :: "string \<Rightarrow> string \<Rightarrow> string list \<Rightarrow> json_obj" where
  "listed_object i d s =
     [(''value'', JObj [(''id'', JStr i), (''desc'', JStr d), (''snis'', JArr (map JStr s))])]"

definition listed_object_without_id :: "string \<Rightarrow> string list \<Rightarrow> json_obj" where
  "listed_object_without_id d s =
     [(''value'', JObj [(''desc'', JStr d), (''snis'', JArr (map JStr s))])]"

text \<open>The answers to a successful \<open>POST\<close> and to a successful \<open>DELETE\<close>.\<close>

definition create_answer :: "string \<Rightarrow> json_obj" where
  "create_answer k = [(''code'', JNum 200), (''msg'', JStr ''ok''), (''data'', JObj [(''key'', JStr k)])]"

definition delete_answer :: "string \<Rightarrow> json_obj" where
  "delete_answer k = [(''deleted'', JStr ''1''), (''key'', JStr (''/apisix/ssls/'' @ k))]"

definition sample_auth :: Auth where
  "sample_auth = \<lparr>AdminKey = ''secret'', ServerAddress = ''http://gw''\<rparr>"

definition world0 :: world where
  "world0 = \<lparr>sent = [], printed = []\<rparr>"

text \<open>A store with two objects that carry the note \<open>allinssl-ab\<close> and exactly the domain
  \<open>a.com\<close>: the first has the id 1, the second has no id.\<close>

definition gateway_two_matches :: gateway where
  "gateway_two_matches h r =
     (if req_method r = ''GET''
      then Inr [(''total'', JNum 2),
                (''list'', JObj
                   [(''0'', JObj (listed_object ''1'' ''allinssl-ab'' [''a.com''])),
                    (''1'', JObj (listed_object_without_id ''allinssl-ab'' [''a.com'']))])]
      else if req_method r = ''POST'' then Inr (create_answer ''2'')
      else Inl (LibError ''unexpected request''))"

text \<open>A store with two stale objects (the note \<open>allinssl-ab\<close>, other domains). The gateway
  accepts the upload under the id \<open>new\<close>, fails to delete \<open>old1\<close>, and answers the deletion of
  \<open>new\<close> as the parameter says.\<close>

definition gateway_failing_delete :: "error + json_obj \<Rightarrow> gateway" where
  "gateway_failing_delete rollback h r =
     (if req_method r = ''GET''
      then Inr [(''total'', JNum 2),
                (''list'', JObj
                   [(''0'', JObj (listed_object ''old1'' ''allinssl-ab'' [''b.com''])),
                    (''1'', JObj (listed_object ''old2'' ''allinssl-ab'' [''c.com'']))])]
      else if req_method r = ''POST'' then Inr (create_answer ''new'')
      else if req_url r = ''http://gw/ssls/old1'' then Inl (LibError ''timeout'')
      else if req_url r = ''http://gw/ssls/new'' then rollback
      else Inr (delete_answer ''old2''))"

section \<open>The relation of two domain lists is the multiset relation\<close>

lemma lookup0_update:
  "lookup0 (AList.update k v al) x = (if x = k then v else lookup0 al x)"
  by (simp add: lookup0_def update_conv')

lemma lookup0_empty: "lookup0 [] x = 0"
  by (simp add: lookup0_def)

lemma count_loop_lookup:
  "lookup0 (foldl count_step cnt a) x = lookup0 cnt x + int (count (mset a) x)"
  by (induction a arbitrary: cnt) (simp_all add: count_step_def lookup0_update)

lemma count_loop_distinct:
  "distinct (map fst cnt) \<Longrightarrow> distinct (map fst (foldl count_step cnt a))"
  by (induction a arbitrary: cnt) (simp_all add: count_step_def distinct_update)

text \<open>The loop over \<open>b\<close>, started on the counts of a multiset \<open>M\<close>, ends on the counts of
  \<open>M - mset b\<close> and has counted the elements of \<open>M \<inter># mset b\<close>.\<close>

lemma match_loop:
  assumes "\<forall>x. lookup0 cnt x = int (count M x)"
  shows "\<exists>cnt'. foldl match_step (cnt, ov) b = (cnt', ov + int (size (M \<inter># mset b)))
           \<and> (\<forall>x. lookup0 cnt' x = int (count (M - mset b) x))
           \<and> (distinct (map fst cnt) \<longrightarrow> distinct (map fst cnt'))"
  using assms
proof (induction b arbitrary: cnt ov M)
  case Nil
  then show ?case by simp
next
  case (Cons s b)
  show ?case
  proof (cases "s \<in># M")
    case True
    let ?c = "AList.update s (lookup0 cnt s - 1) cnt"
    have pos: "lookup0 cnt s > 0" using True Cons.prems by simp
    have inv: "\<forall>x. lookup0 ?c x = int (count (M - {#s#}) x)"
      using Cons.prems True by (auto simp: lookup0_update)
    from Cons.IH [OF inv, of "ov + 1"] obtain cnt' where
      h: "foldl match_step (?c, ov + 1) b = (cnt', ov + 1 + int (size ((M - {#s#}) \<inter># mset b)))"
         "\<forall>x. lookup0 cnt' x = int (count (M - {#s#} - mset b) x)"
         "distinct (map fst ?c) \<longrightarrow> distinct (map fst cnt')"
      by blast
    have sz: "size (M \<inter># mset (s # b)) = Suc (size ((M - {#s#}) \<inter># mset b))"
      using True by (simp add: inter_add_right2)
    have st: "match_step (cnt, ov) s = (?c, ov + 1)"
      using pos by (simp add: match_step_def)
    have df: "M - mset (s # b) = M - {#s#} - mset b" by simp
    have "foldl match_step (cnt, ov) (s # b) = (cnt', ov + int (size (M \<inter># mset (s # b))))"
      using h(1) st sz by simp
    moreover have "\<forall>x. lookup0 cnt' x = int (count (M - mset (s # b)) x)"
      using h(2) unfolding df .
    moreover have "distinct (map fst cnt) \<longrightarrow> distinct (map fst cnt')"
      using h(3) by (simp add: distinct_update)
    ultimately show ?thesis by blast
  next
    case False
    have npos: "\<not> lookup0 cnt s > 0" using False Cons.prems by (simp add: not_in_iff)
    from Cons.IH [OF Cons.prems, of ov] obtain cnt' where
      h: "foldl match_step (cnt, ov) b = (cnt', ov + int (size (M \<inter># mset b)))"
         "\<forall>x. lookup0 cnt' x = int (count (M - mset b) x)"
         "distinct (map fst cnt) \<longrightarrow> distinct (map fst cnt')"
      by blast
    have e1: "M \<inter># mset (s # b) = M \<inter># mset b"
      using False by (simp add: inter_add_right1)
    have e2: "M - mset (s # b) = M - mset b"
      using False by (simp add: diff_single_trivial)
    have st: "match_step (cnt, ov) s = (cnt, ov)"
      using npos by (simp add: match_step_def)
    have "foldl match_step (cnt, ov) (s # b) = (cnt', ov + int (size (M \<inter># mset (s # b))))"
      using h(1) st unfolding e1 by simp
    moreover have "\<forall>x. lookup0 cnt' x = int (count (M - mset (s # b)) x)"
      using h(2) unfolding e2 .
    ultimately show ?thesis using h(3) by blast
  qed
qed

text \<open>With distinct keys, "every stored count is zero" is "every key reads as zero".\<close>

lemma all_zero_iff:
  assumes "distinct (map fst cnt)"
  shows "list_all (\<lambda>(k, v). v = 0) cnt \<longleftrightarrow> (\<forall>x. lookup0 cnt x = 0)"
proof
  assume a: "list_all (\<lambda>(k, v). v = 0) cnt"
  show "\<forall>x. lookup0 cnt x = 0"
  proof
    fix x
    show "lookup0 cnt x = 0"
    proof (cases "map_of cnt x")
      case None
      then show ?thesis by (simp add: lookup0_def)
    next
      case (Some v)
      then have "(x, v) \<in> set cnt" by (rule map_of_SomeD)
      with a have "v = 0" by (auto simp: list_all_iff)
      with Some show ?thesis by (simp add: lookup0_def)
    qed
  qed
next
  assume a: "\<forall>x. lookup0 cnt x = 0"
  show "list_all (\<lambda>(k, v). v = 0) cnt"
    unfolding list_all_iff
  proof (clarify)
    fix k v assume "(k, v) \<in> set cnt"
    with assms have "map_of cnt k = Some v" by simp
    with a [rule_format, of k] show "v = 0" by (simp add: lookup0_def)
  qed
qed

lemma same_size_subset_eq:
  "(length a = length b \<and> mset a \<subseteq># mset b) \<longleftrightarrow> mset a = mset b"
proof
  assume "length a = length b \<and> mset a \<subseteq># mset b"
  then have "size (mset a) = size (mset b)" "mset a \<subseteq># mset b" by simp_all
  then show "mset a = mset b"
    using mset_subset_size [of "mset a" "mset b"] by (auto simp: subset_mset.less_le)
next
  assume e: "mset a = mset b"
  then show "length a = length b \<and> mset a \<subseteq># mset b"
    using mset_eq_length by auto
qed

lemma common_element_iff:
  "0 < size (mset a \<inter># mset b) \<longleftrightarrow> set a \<inter> set b \<noteq> {}"
proof -
  have "set_mset (mset a \<inter># mset b) = set a \<inter> set b" by simp
  then show ?thesis by (metis nonempty_has_size set_mset_eq_empty_iff)
qed

lemma compareSliceRelation_char:
  "compareSliceRelation a b =
     (if a = [] \<or> b = [] then 0
      else if mset a = mset b then 2
      else if set a \<inter> set b \<noteq> {} then 1 else 0)"
proof (cases "a = [] \<or> b = []")
  case True
  then show ?thesis by (auto simp: compareSliceRelation_def)
next
  case False
  have inv: "\<forall>x. lookup0 (foldl count_step [] a) x = int (count (mset a) x)"
    by (simp add: count_loop_lookup lookup0_empty)
  have d: "distinct (map fst (foldl count_step [] a))"
    by (rule count_loop_distinct) simp
  from match_loop [OF inv, of 0 b] d obtain cnt' where
    h: "foldl match_step (foldl count_step [] a, 0) b = (cnt', int (size (mset a \<inter># mset b)))"
       "\<forall>x. lookup0 cnt' x = int (count (mset a - mset b) x)"
       "distinct (map fst cnt')"
    by auto
  have z: "list_all (\<lambda>(k, v). v = 0) cnt' \<longleftrightarrow> mset a \<subseteq># mset b"
    using h(2) by (simp add: all_zero_iff [OF h(3)] subseteq_mset_def)
  show ?thesis
    using False same_size_subset_eq [of a b] common_element_iff [of a b]
    by (simp add: compareSliceRelation_def h(1) z)
qed

text \<open>The greedy matching of the specification, in terms of multisets.\<close>

lemma greedy_match_mset:
  "fst (greedy_match a b) = size (mset a \<inter># mset b) \<and>
   mset (snd (greedy_match a b)) = mset a - mset b"
proof (induction b arbitrary: a)
  case Nil
  then show ?case by simp
next
  case (Cons d b)
  show ?case
  proof (cases "d \<in> set a")
    case True
    then have m: "d \<in># mset a" by simp
    have r: "mset (remove1 d a) = mset a - {#d#}" by simp
    show ?thesis
      using True Cons.IH [of "remove1 d a"] m
      by (simp add: split_beta inter_add_right2)
  next
    case False
    then have m: "\<not> d \<in># mset a" by simp
    show ?thesis
      using False Cons.IH [of a] m
      by (simp add: inter_add_right1 diff_single_trivial)
  qed
qed

lemma Classify_char:
  "Classify a b =
     (if a = [] \<or> b = [] then Disjoint
      else if mset a = mset b then Exact
      else if set a \<inter> set b \<noteq> {} then Partial else Disjoint)"
proof -
  obtain n r where g: "greedy_match a b = (n, r)" by (cases "greedy_match a b")
  from greedy_match_mset [of a b] g
  have n: "n = size (mset a \<inter># mset b)" and r: "mset r = mset a - mset b" by simp_all
  have "r = [] \<longleftrightarrow> mset a \<subseteq># mset b"
  proof -
    have "r = [] \<longleftrightarrow> mset r = {#}" by simp
    also have "\<dots> \<longleftrightarrow> mset a \<subseteq># mset b"
      unfolding r by (simp add: subseteq_mset_def multiset_eq_iff)
    finally show ?thesis .
  qed
  then show ?thesis
    using same_size_subset_eq [of a b] common_element_iff [of a b] n
    by (simp add: Classify_def g)
qed

lemma compareSliceRelation_Classify:
  "compareSliceRelation a b = relation_code (Classify a b)"
  by (simp add: compareSliceRelation_char Classify_char)

text \<open>
  Claim C4. \<open>compareSliceRelation\<close> computes the three-way relation of the specification on
  the two lists as multisets: its result is the code of \<^const>\<open>Classify\<close>; it is 0 (Disjoint)
  whenever one of the lists is empty; on two non-empty lists it is 2 (Exact) if and only if
  the lists are equal as multisets, and 1 (Partial) if and only if greedy matching matches at
  least one element and the lists are not equal as multisets; two copies of \<open>a\<close> against one
  copy of \<open>a\<close> is Partial, not Exact.
\<close>

theorem compareSliceRelation_is_multiset_relation:
  "compareSliceRelation a b = relation_code (Classify a b) \<and>
   (a = [] \<or> b = [] \<longrightarrow> compareSliceRelation a b = 0) \<and>
   (a \<noteq> [] \<and> b \<noteq> [] \<longrightarrow>
      (compareSliceRelation a b = 2 \<longleftrightarrow> mset a = mset b) \<and>
      (compareSliceRelation a b = 1 \<longleftrightarrow> 0 < fst (greedy_match a b) \<and> mset a \<noteq> mset b)) \<and>
   compareSliceRelation [''a'', ''a''] [''a''] = 1"
proof -
  have g: "0 < fst (greedy_match a b) \<longleftrightarrow> set a \<inter> set b \<noteq> {}"
    using greedy_match_mset [of a b] common_element_iff [of a b] by simp
  have ex: "compareSliceRelation [''a'', ''a''] [''a''] = 1"
    by (simp add: compareSliceRelation_char)
  show ?thesis
    unfolding g using ex by (simp add: compareSliceRelation_Classify Classify_char)
qed

theorem compareSliceRelation_is_multiset_relation_witness:
  "compareSliceRelation [''a.com'', ''b.com''] [''b.com'', ''a.com''] = 2 \<and>
   compareSliceRelation [''a.com'', ''b.com''] [''a.com'', ''c.com''] = 1 \<and>
   compareSliceRelation [] [''a.com''] = 0"
proof -
  have m1: "mset [''a.com'', ''b.com''] = mset [''b.com'', ''a.com'']" by simp
  have m2: "mset [''a.com'', ''b.com''] \<noteq> mset [''a.com'', ''c.com'']" by simp
  have g2: "0 < fst (greedy_match [''a.com'', ''b.com''] [''a.com'', ''c.com''])" by simp
  show ?thesis
    using compareSliceRelation_is_multiset_relation [of "[''a.com'', ''b.com'']" "[''b.com'', ''a.com'']"]
      compareSliceRelation_is_multiset_relation [of "[''a.com'', ''b.com'']" "[''a.com'', ''c.com'']"]
      compareSliceRelation_is_multiset_relation [of "[]" "[''a.com'']"]
      m1 m2 g2
    by simp
qed

text \<open>
  Claim C5. The classification is symmetric: for every pair of string lists \<open>a\<close> and \<open>b\<close>,
  \<open>compareSliceRelation a b\<close> equals \<open>compareSliceRelation b a\<close>.
\<close>

theorem compareSliceRelation_symmetric:
  "compareSliceRelation a b = compareSliceRelation b a"
proof -
  have "mset a = mset b \<longleftrightarrow> mset b = mset a" by auto
  moreover have "set a \<inter> set b = set b \<inter> set a" by auto
  ultimately show ?thesis
    unfolding compareSliceRelation_char by auto
qed

section \<open>The client of the gateway: deletion\<close>

lemma ToUpper_GET: "ToUpper ''GET'' = ''GET''"
  by (simp add: ToUpper_def upper_char_def)

lemma ToUpper_POST: "ToUpper ''POST'' = ''POST''"
  by (simp add: ToUpper_def upper_char_def)

lemma ToUpper_DELETE: "ToUpper ''DELETE'' = ''DELETE''"
  by (simp add: ToUpper_def upper_char_def)

lemma ApisixAPI_DELETE:
  "ApisixAPI gw a apiPath data ''DELETE'' w =
     (gw (sent w) \<lparr>req_method = ''DELETE'', req_url = ServerAddress a @ apiPath,
                   req_headers = [(''X-API-KEY'', AdminKey a)], req_body = None\<rparr>,
      w\<lparr>sent := sent w @ [\<lparr>req_method = ''DELETE'', req_url = ServerAddress a @ apiPath,
                   req_headers = [(''X-API-KEY'', AdminKey a)], req_body = None\<rparr>]\<rparr>)"
  by (simp add: ApisixAPI_def ToUpper_DELETE Let_def)

lemma DeleteCertFromApisix_world:
  "snd (DeleteCertFromApisix gw a delKey w) = w\<lparr>sent := sent w @ [delete_request a delKey]\<rparr>"
  by (simp add: DeleteCertFromApisix_def ApisixAPI_DELETE delete_request_def assert_string_def Let_def
      split: sum.splits option.splits json.splits)

lemma DeleteCertFromApisix_result:
  "fst (DeleteCertFromApisix gw a delKey w) =
     (case gw (sent w) (delete_request a delKey) of
        Inl err \<Rightarrow> Inl (ApiCallFailed err)
      | Inr res \<Rightarrow>
          (case map_of res ''deleted'' of
             Some (JStr d) \<Rightarrow>
               (case map_of res ''key'' of
                  Some (JStr key) \<Rightarrow>
                    if path_Base key = delKey then Inr True else Inl (KeyMismatch delKey key)
                | _ \<Rightarrow> Inl KeyNotFound)
           | _ \<Rightarrow> Inl (ApisixApiError (map_of res ''message''))))"
  by (simp add: DeleteCertFromApisix_def ApisixAPI_DELETE delete_request_def assert_string_def Let_def
      split: sum.splits option.splits json.splits)






section \<open>The parameters are checked before any request\<close>

lemma domain_strings_not_all:
  "\<not> list_all is_JStr xs \<Longrightarrow> \<exists>e. domain_strings i xs = Inl e"
proof (induction xs arbitrary: i)
  case Nil
  then show ?case by simp
next
  case (Cons v vs)
  show ?case
  proof (cases v)
    case (JStr s)
    with Cons.prems have "\<not> list_all is_JStr vs" by simp
    from Cons.IH [OF this, of "Suc i"] obtain e where "domain_strings (Suc i) vs = Inl e" ..
    with JStr show ?thesis by simp
  qed simp_all
qed

lemma domain_strings_all:
  "list_all is_JStr xs \<Longrightarrow> domain_strings i xs = Inr (map the_JStr xs)"
proof (induction xs arbitrary: i)
  case Nil
  then show ?case by simp
next
  case (Cons v vs)
  then show ?case by (cases v) simp_all
qed

lemma assert_string_nonempty:
  "nonempty_string x \<longleftrightarrow> snd (assert_string x) \<and> fst (assert_string x) \<noteq> []"
  by (simp add: nonempty_string_def assert_string_def split: option.splits json.splits)

lemma Upload_bind_params_invalid:
  assumes "\<not> valid_params cfg0"
  shows "\<exists>e. Upload_bind_params cfg0 = Inl e"
proof (cases cfg0)
  case None
  then show ?thesis by (simp add: Upload_bind_params_def)
next
  case (Some cfg)
  show ?thesis
  proof (cases "nonempty_string (map_of cfg ''cert'') \<and> nonempty_string (map_of cfg ''key'') \<and>
                nonempty_string (map_of cfg ''admin_key'') \<and> nonempty_string (map_of cfg ''server_address'')")
    case False
    then show ?thesis
      unfolding assert_string_nonempty
      by (auto simp: Upload_bind_params_def Some split_beta split: option.splits sum.splits)
  next
    case True
    with assms Some have nd: "\<not> nonempty_string_list (map_of cfg ''domain'')"
      by (simp add: valid_params_def)
    have "\<exists>e. (case assert_slice (map_of cfg ''domain'') of
             None \<Rightarrow> Inl (FieldRequired ''domain'')
           | Some domains \<Rightarrow>
               if length domains = 0 then Inl (FieldRequired ''domain'')
               else
                 (case domain_strings 0 domains of
                    Inl e \<Rightarrow> Inl e
                  | Inr domain \<Rightarrow> Inr (f domain))) = Inl e" for f :: "string list \<Rightarrow> params"
    proof (cases "assert_slice (map_of cfg ''domain'')")
      case None
      then show ?thesis by simp
    next
      case (Some domains)
      show ?thesis
      proof (cases "domains = []")
        case True
        with Some show ?thesis by simp
      next
        case False
        with nd Some have "\<not> list_all is_JStr domains"
          by (auto simp: nonempty_string_list_def assert_slice_def split: option.splits json.splits)
        from domain_strings_not_all [OF this, of 0] obtain e where "domain_strings 0 domains = Inl e" ..
        with Some False show ?thesis by simp
      qed
    qed
    then show ?thesis
      using True unfolding assert_string_nonempty
      by (simp add: Upload_bind_params_def \<open>cfg0 = Some cfg\<close> split_beta)
  qed
qed

text \<open>
  Claim C8. When a required field of the parameter bundle is missing, empty or of the wrong
  type (\<open>cert\<close>, \<open>key\<close>, \<open>admin_key\<close>, \<open>server_address\<close>: non-empty strings; \<open>domain\<close>: a
  non-empty list of strings), or the bundle itself is nil, \<open>Upload_bind\<close> returns an error and
  the world is as before: no request was sent, so no List, Create or Delete was issued.
\<close>

theorem Upload_bind_rejects_invalid_params:
  "\<not> valid_params cfg \<Longrightarrow> \<exists>e. Upload_bind l gw cfg w = (Inl e, w)"
proof -
  assume "\<not> valid_params cfg"
  from Upload_bind_params_invalid [OF this] obtain e where "Upload_bind_params cfg = Inl e" ..
  then show ?thesis by (simp add: Upload_bind_def)
qed

theorem Upload_bind_rejects_invalid_params_witness:
  "\<forall>l gw w. \<exists>e. Upload_bind l gw (Some [(''cert'', JStr ''pem''), (''key'', JNum 1)]) w = (Inl e, w)"
proof -
  have "\<not> valid_params (Some [(''cert'', JStr ''pem''), (''key'', JNum 1)])"
    by (simp add: valid_params_def nonempty_string_def)
  then show ?thesis
    using Upload_bind_rejects_invalid_params by blast
qed

section \<open>The fingerprint\<close>

lemma hex_digit_hi: "unat (drop_bit 4 (v :: byte)) < 16"
proof -
  have "unat v < 256" using unsigned_less [of v] by simp
  then have "unat v div 16 < 16" by simp
  moreover have "unat (drop_bit 4 v) = unat v div 2 ^ 4"
    unfolding unat_drop_bit_eq by (rule drop_bit_eq_div)
  ultimately show ?thesis by simp
qed

lemma hex_digit_lo: "unat ((v :: byte) AND 0x0F) < 16"
proof -
  have "v AND 0x0F \<le> 0x0F" by (rule word_and_le1)
  then have "unat (v AND 0x0F) \<le> unat (0x0F :: byte)" by (simp add: word_le_nat_alt)
  then show ?thesis by simp
qed

lemma hex_length: "length (hex_EncodeToString bs) = 2 * length bs"
  by (induction bs) simp_all

lemma hex_chars: "set (hex_EncodeToString bs) \<subseteq> set hextable"
proof (induction bs)
  case Nil
  then show ?case by simp
next
  case (Cons v vs)
  have l: "length hextable = 16" by (simp add: hextable_def)
  have "hextable ! unat (drop_bit 4 v) \<in> set hextable"
    using hex_digit_hi [of v] l by (metis nth_mem)
  moreover have "hextable ! unat (v AND 0x0F) \<in> set hextable"
    using hex_digit_lo [of v] l by (metis nth_mem)
  ultimately show ?case using Cons.IH by simp
qed

text \<open>
  Claim C7. \<open>GetSHA256\<close> fails when \<open>pem.Decode\<close> finds no block and when the block does not
  parse as a certificate. Otherwise it returns the hexadecimal encoding of the SHA-256 digest
  of the certificate's raw DER bytes (not of the PEM text): two lowercase hexadecimal digits
  for each byte of the digest. Two inputs whose certificates have the same raw bytes get the
  same fingerprint.
\<close>

theorem GetSHA256_is_hex_sha256_of_der:
  "(pem_Decode l certStr = None \<longrightarrow> GetSHA256 l certStr = Inl PemUndecodable) \<and>
   (\<forall>der err. pem_Decode l certStr = Some der \<and> x509_ParseCertificate l der = Inl err \<longrightarrow>
      GetSHA256 l certStr = Inl (CertUnparsable err)) \<and>
   (\<forall>der raw. pem_Decode l certStr = Some der \<and> x509_ParseCertificate l der = Inr raw \<longrightarrow>
      GetSHA256 l certStr = Inr (hex_EncodeToString (sha256_Sum256 l raw)) \<and>
      length (hex_EncodeToString (sha256_Sum256 l raw)) = 2 * length (sha256_Sum256 l raw) \<and>
      set (hex_EncodeToString (sha256_Sum256 l raw)) \<subseteq> set ''0123456789abcdef'') \<and>
   (\<forall>other der der' raw. pem_Decode l certStr = Some der \<and> pem_Decode l other = Some der' \<and>
      x509_ParseCertificate l der = Inr raw \<and> x509_ParseCertificate l der' = Inr raw \<longrightarrow>
      GetSHA256 l other = GetSHA256 l certStr)"
  using hex_chars [unfolded hextable_def]
  by (auto simp: GetSHA256_def hex_length)




theorem GetSHA256_is_hex_sha256_of_der_witness:
  "GetSHA256 \<lparr>pem_Decode = (\<lambda>s. if s = ''PEM'' then Some [0x30, 0x82] else None),
              x509_ParseCertificate = (\<lambda>der. if der = [0x30, 0x82] then Inr der else Inl (LibError ''asn1'')),
              sha256_Sum256 = (\<lambda>raw. [0xAB, 0x01])\<rparr> ''PEM'' = Inr ''ab01'' \<and>
   GetSHA256 \<lparr>pem_Decode = (\<lambda>s. if s = ''PEM'' then Some [0x30, 0x82] else None),
              x509_ParseCertificate = (\<lambda>der. if der = [0x30, 0x82] then Inr der else Inl (LibError ''asn1'')),
              sha256_Sum256 = (\<lambda>raw. [0xAB, 0x01])\<rparr> ''junk'' = Inl PemUndecodable"
proof -
  let ?l = "\<lparr>pem_Decode = (\<lambda>s. if s = ''PEM'' then Some [0x30, 0x82 :: byte] else None),
             x509_ParseCertificate = (\<lambda>der. if der = [0x30, 0x82] then Inr der else Inl (LibError ''asn1'')),
             sha256_Sum256 = (\<lambda>raw. [0xAB, 0x01 :: byte])\<rparr>"
  have h: "hex_EncodeToString [0xAB, 0x01] = ''ab01''"
    by (simp add: hextable_def drop_bit_eq_div)
  have d: "pem_Decode ?l ''PEM'' = Some [0x30, 0x82]" by simp
  have p: "x509_ParseCertificate ?l [0x30, 0x82] = Inr [0x30, 0x82]" by simp
  have s: "sha256_Sum256 ?l [0x30, 0x82] = [0xAB, 0x01]" by simp
  have j: "pem_Decode ?l ''junk'' = None" by simp
  have "GetSHA256 ?l ''PEM'' = Inr (hex_EncodeToString (sha256_Sum256 ?l [0x30, 0x82]))"
    using GetSHA256_is_hex_sha256_of_der [of ?l "''PEM''"] d p by blast
  then have a: "GetSHA256 ?l ''PEM'' = Inr ''ab01''"
    unfolding s h .
  have b: "GetSHA256 ?l ''junk'' = Inl PemUndecodable"
    using GetSHA256_is_hex_sha256_of_der [of ?l "''junk''"] j by blast
  show ?thesis using a b by (rule conjI)
qed

section \<open>The scan of the listed certificates\<close>

lemma snis_strings_char:
  "snis_strings xs = (if list_all is_JStr xs then Some (map the_JStr xs) else None)"
proof (induction xs)
  case Nil
  then show ?case by simp
next
  case (Cons v vs)
  then show ?case by (cases v) simp_all
qed

lemma relation_code_eq:
  "relation_code r = 2 \<longleftrightarrow> r = Exact"
  "relation_code r = 1 \<longleftrightarrow> r = Partial"
  by (cases r; simp)+

lemma scan_step_char:
  "scan_step note domain st cert =
     (let st1 = (if deletion_candidate note domain cert \<and> \<not> deleteMap st (entry_id cert)
                 then mark_deleted st (entry_id cert) else st)
      in if reuse_match note domain cert then st1\<lparr>certKey := entry_id cert\<rparr> else st1)"
proof (cases "assert_map (map_of cert ''value'')")
  case None
  then have f: "entry_field cert k = None" for k
    by (auto simp: entry_field_def assert_map_def split: option.splits json.splits)
  have "\<not> deletion_candidate note domain cert"
    by (simp add: deletion_candidate_def entry_id_def f)
  moreover have "\<not> reuse_match note domain cert"
    by (simp add: reuse_match_def entry_relation_def entry_snis_def f)
  ultimately show ?thesis using None by (simp add: scan_step_def)
next
  case (Some v)
  then have f: "entry_field cert k = map_of v k" for k
    by (auto simp: entry_field_def assert_map_def split: option.splits json.splits)
  have d: "fst (assert_string (map_of v ''desc'')) = entry_desc cert"
    by (simp add: entry_desc_def f assert_string_def split: option.splits json.splits)
  have i: "fst (assert_string (map_of v ''id'')) = entry_id cert"
    by (simp add: entry_id_def f assert_string_def split: option.splits json.splits)
  have r: "(case assert_slice (map_of v ''snis'') of
              None \<Rightarrow> 0
            | Some snisAny \<Rightarrow>
                (case snis_strings snisAny of
                   None \<Rightarrow> 0
                 | Some snis \<Rightarrow> compareSliceRelation snis domain))
           = relation_code (entry_relation domain cert)"
  proof (cases "map_of v ''snis''")
    case None
    then show ?thesis
      by (simp add: entry_relation_def entry_snis_def f assert_slice_def)
  next
    case (Some j)
    then show ?thesis
      by (cases j)
        (simp_all add: entry_relation_def entry_snis_def f assert_slice_def snis_strings_char
          compareSliceRelation_Classify)
  qed
  have "scan_step note domain st cert =
     (let desc = entry_desc cert;
          id = entry_id cert;
          relation = relation_code (entry_relation domain cert);
          snisMatch = (relation = 2);
          snisPartial = (relation = 1);
          st1 =
            (if id \<noteq> [] \<and> ((desc = note \<and> \<not> snisMatch) \<or> (snisPartial \<and> desc \<noteq> note))
             then
               (if \<not> deleteMap st id
                then st\<lparr>deleteCertKeyList := deleteCertKeyList st @ [id],
                        deleteMap := (deleteMap st)(id := True)\<rparr>
                else st)
             else st)
      in if snisMatch \<and> desc = note then st1\<lparr>certKey := id\<rparr> else st1)"
    by (simp only: scan_step_def Some option.case d i r)
  also have "\<dots> =
     (let st1 = (if deletion_candidate note domain cert \<and> \<not> deleteMap st (entry_id cert)
                 then mark_deleted st (entry_id cert) else st)
      in if reuse_match note domain cert then st1\<lparr>certKey := entry_id cert\<rparr> else st1)"
  proof -
    have dc: "(entry_id cert \<noteq> [] \<and>
               ((entry_desc cert = note \<and> \<not> relation_code (entry_relation domain cert) = 2) \<or>
                (relation_code (entry_relation domain cert) = 1 \<and> entry_desc cert \<noteq> note)))
              \<longleftrightarrow> deletion_candidate note domain cert"
      by (simp only: deletion_candidate_def relation_code_eq)
    have rm: "(relation_code (entry_relation domain cert) = 2 \<and> entry_desc cert = note)
              \<longleftrightarrow> reuse_match note domain cert"
      by (simp only: reuse_match_def relation_code_eq conj_commute)
    have md: "st\<lparr>deleteCertKeyList := deleteCertKeyList st @ [entry_id cert],
                 deleteMap := (deleteMap st)(entry_id cert := True)\<rparr> = mark_deleted st (entry_id cert)"
      by (simp only: mark_deleted_def)
    have nest: "(if A then (if B then x else y) else y) = (if A \<and> B then x else y)"
      for A B and x y :: scan_state
      by simp
    show ?thesis
      by (simp only: Let_def dc rm md nest)
  qed
  finally show ?thesis .
qed

lemma scan_step_dels:
  assumes "consistent st"
  shows "deleteCertKeyList (scan_step note domain st cert) =
           (if deletion_candidate note domain cert
            then add_id (deleteCertKeyList st) (entry_id cert) else deleteCertKeyList st)"
    and "consistent (scan_step note domain st cert)"
  using assms
  by (auto simp: scan_step_char consistent_def add_id_def mark_deleted_def Let_def)

lemma scan_loop_dels:
  "consistent st \<Longrightarrow>
   deleteCertKeyList (foldl (scan_step note domain) st cs) =
     foldl add_id (deleteCertKeyList st) (map entry_id (filter (deletion_candidate note domain) cs))"
proof (induction cs arbitrary: st)
  case Nil
  then show ?case by simp
next
  case (Cons c cs)
  from scan_step_dels [OF Cons.prems, of "note" domain c] Cons.IH [of "scan_step note domain st c"]
  show ?case by simp
qed

lemma scan_step_certKey:
  "certKey (scan_step note domain st cert) =
     (if reuse_match note domain cert then entry_id cert else certKey st)"
  by (simp add: scan_step_char mark_deleted_def Let_def)

lemma scan_loop_certKey:
  "certKey (foldl (scan_step note domain) st cs) =
     (if filter (reuse_match note domain) cs = [] then certKey st
      else entry_id (last (filter (reuse_match note domain) cs)))"
proof (induction cs arbitrary: st)
  case Nil
  then show ?case by simp
next
  case (Cons c cs)
  show ?case
    using Cons.IH [of "scan_step note domain st c"]
    by (simp add: scan_step_certKey)
qed

lemma set_add_ids: "set (foldl add_id acc ids) = set acc \<union> set ids"
  by (induction ids arbitrary: acc) (auto simp: add_id_def)


lemma consistent_init:
  "consistent \<lparr>deleteCertKeyList = [], deleteMap = (\<lambda>_. False), certKey = []\<rparr>"
  by (simp add: consistent_def)

lemma Upload_bind_scan_dels:
  "deleteCertKeyList (Upload_bind_scan note domain certServer) =
     id_set (map entry_id (filter (deletion_candidate note domain) certServer))"
  unfolding Upload_bind_scan_def id_set_def
  using scan_loop_dels [OF consistent_init, of "note" domain certServer] by simp

lemma Upload_bind_scan_certKey:
  "certKey (Upload_bind_scan note domain certServer) =
     (if filter (reuse_match note domain) certServer = [] then []
      else entry_id (last (filter (reuse_match note domain) certServer)))"
  unfolding Upload_bind_scan_def
  using scan_loop_certKey [of "note" domain _ certServer] by simp


lemma strings_roundtrip:
  "list_all is_JStr (map JStr s)" "map the_JStr (map JStr s) = s" "map (the_JStr \<circ> JStr) s = s"
  by (induction s) simp_all

lemma listed_object_fields:
  "entry_id (listed_object i d s) = i"
  "entry_desc (listed_object i d s) = d"
  "entry_snis (listed_object i d s) = Some s"
  by (simp_all add: listed_object_def entry_id_def entry_desc_def entry_snis_def entry_field_def
      strings_roundtrip)

lemma listed_object_without_id_fields:
  "entry_id (listed_object_without_id d s) = []"
  "entry_desc (listed_object_without_id d s) = d"
  "entry_snis (listed_object_without_id d s) = Some s"
  by (simp_all add: listed_object_without_id_def entry_id_def entry_desc_def entry_snis_def
      entry_field_def strings_roundtrip)

lemma reuse_match_excludes_deletion:
  "reuse_match note domain cert \<Longrightarrow> \<not> deletion_candidate note domain cert"
  by (auto simp: reuse_match_def deletion_candidate_def)

lemma set_deleteCertKeyList:
  "set (deleteCertKeyList (Upload_bind_scan note domain certServer)) =
     entry_id ` {cert \<in> set certServer. deletion_candidate note domain cert}"
  by (simp add: Upload_bind_scan_dels id_set_def set_add_ids)


section \<open>The reuse candidate\<close>

text \<open>
  Claim C1 says that the reuse candidate is the first listed object with the note and an Exact
  relation, and that later such objects do not overwrite it. The scan assigns \<open>certKey\<close> at
  every such object, so a later one overwrites an earlier one: on two of them, with the ids 1
  and 2 in this order, the scan ends with 2.
\<close>

theorem Upload_bind_scan_first_match_counterexample:
  "filter (reuse_match ''allinssl-ab'' [''a.com''])
     [listed_object ''1'' ''allinssl-ab'' [''a.com''], listed_object ''2'' ''allinssl-ab'' [''a.com'']]
     = [listed_object ''1'' ''allinssl-ab'' [''a.com''], listed_object ''2'' ''allinssl-ab'' [''a.com'']] \<and>
   entry_id (listed_object ''1'' ''allinssl-ab'' [''a.com'']) = ''1'' \<and>
   certKey (Upload_bind_scan ''allinssl-ab'' [''a.com'']
     [listed_object ''1'' ''allinssl-ab'' [''a.com''], listed_object ''2'' ''allinssl-ab'' [''a.com'']])
     = ''2''"
  by (simp add: Upload_bind_scan_certKey reuse_match_def entry_relation_def listed_object_fields
      Classify_char)

text \<open>
  Claim C1, amended. On a listing whose objects with the note and an Exact relation all have a
  non-empty id, the reuse candidate the scan ends with is the id of the last of these objects
  in iteration order; each later one overwrites the earlier ones. It is empty when there is
  none.
\<close>

theorem Upload_bind_scan_last_match:
  assumes "\<forall>cert \<in> set certServer. reuse_match note domain cert \<longrightarrow> entry_id cert \<noteq> []"
  shows "certKey (Upload_bind_scan note domain certServer) =
           (if filter (reuse_match note domain) certServer = [] then []
            else entry_id (last (filter (reuse_match note domain) certServer)))"
  by (rule Upload_bind_scan_certKey)

theorem Upload_bind_scan_last_match_witness:
  "certKey (Upload_bind_scan ''allinssl-ab'' [''a.com'']
     [listed_object ''1'' ''allinssl-ab'' [''a.com''], listed_object ''2'' ''allinssl-ab'' [''a.com''],
      listed_object ''3'' ''other'' [''a.com'']])
     = ''2''"
proof -
  let ?L = "[listed_object ''1'' ''allinssl-ab'' [''a.com''], listed_object ''2'' ''allinssl-ab'' [''a.com''],
      listed_object ''3'' ''other'' [''a.com'']]"
  have h: "\<forall>cert \<in> set ?L. reuse_match ''allinssl-ab'' [''a.com''] cert \<longrightarrow> entry_id cert \<noteq> []"
    by (simp add: listed_object_fields)
  have f: "filter (reuse_match ''allinssl-ab'' [''a.com'']) ?L
             = [listed_object ''1'' ''allinssl-ab'' [''a.com''], listed_object ''2'' ''allinssl-ab'' [''a.com'']]"
    by (simp add: reuse_match_def entry_relation_def listed_object_fields Classify_char)
  show ?thesis
    unfolding Upload_bind_scan_last_match [OF h] f
    by (simp add: listed_object_fields)
qed

text \<open>
  Claim C10 says that the id of a listed object with the note and an Exact relation is never
  in the candidate deletion set. Two listed objects may carry the same id: when the second
  carries the note with other domains, it puts their id in the set, and that id is also the
  reuse candidate.
\<close>

theorem Upload_bind_scan_reuse_candidate_counterexample:
  "reuse_match ''allinssl-ab'' [''a.com''] (listed_object ''1'' ''allinssl-ab'' [''a.com'']) \<and>
   entry_id (listed_object ''1'' ''allinssl-ab'' [''a.com'']) = ''1'' \<and>
   deleteCertKeyList (Upload_bind_scan ''allinssl-ab'' [''a.com'']
     [listed_object ''1'' ''allinssl-ab'' [''a.com''], listed_object ''1'' ''allinssl-ab'' [''b.com'']])
     = [''1''] \<and>
   certKey (Upload_bind_scan ''allinssl-ab'' [''a.com'']
     [listed_object ''1'' ''allinssl-ab'' [''a.com''], listed_object ''1'' ''allinssl-ab'' [''b.com'']])
     = ''1''"
  by (simp add: Upload_bind_scan_certKey Upload_bind_scan_dels reuse_match_def deletion_candidate_def
      entry_relation_def listed_object_fields Classify_char id_set_def add_id_def)

text \<open>
  Claim C10, amended. The scan of a listed object with the note and an Exact relation adds
  nothing to the candidate deletion set, and the id of such an object is in the set exactly
  when another listed object with the same id meets a deletion condition. The reuse candidate
  the scan ends with is in the set only when two listed objects share an id.
\<close>

theorem Upload_bind_scan_reuse_match_not_deleted:
  "(\<forall>cert \<in> set certServer. reuse_match note domain cert \<longrightarrow>
      (\<forall>st. deleteCertKeyList (scan_step note domain st cert) = deleteCertKeyList st) \<and>
      (entry_id cert \<in> set (deleteCertKeyList (Upload_bind_scan note domain certServer)) \<longleftrightarrow>
         (\<exists>other \<in> set certServer. other \<noteq> cert \<and> entry_id other = entry_id cert \<and>
            deletion_candidate note domain other))) \<and>
   (certKey (Upload_bind_scan note domain certServer)
      \<in> set (deleteCertKeyList (Upload_bind_scan note domain certServer)) \<longrightarrow>
      (\<exists>c1 \<in> set certServer. \<exists>c2 \<in> set certServer. c1 \<noteq> c2 \<and> entry_id c1 = entry_id c2))"
proof (intro conjI ballI impI allI)
  fix cert st
  assume "cert \<in> set certServer" and m: "reuse_match note domain cert"
  show "deleteCertKeyList (scan_step note domain st cert) = deleteCertKeyList st"
    using reuse_match_excludes_deletion [OF m] m by (simp add: scan_step_char)
next
  fix cert
  assume c: "cert \<in> set certServer" and m: "reuse_match note domain cert"
  show "entry_id cert \<in> set (deleteCertKeyList (Upload_bind_scan note domain certServer)) \<longleftrightarrow>
         (\<exists>other \<in> set certServer. other \<noteq> cert \<and> entry_id other = entry_id cert \<and>
            deletion_candidate note domain other)"
  proof
    assume "entry_id cert \<in> set (deleteCertKeyList (Upload_bind_scan note domain certServer))"
    then obtain other where o: "other \<in> set certServer" "deletion_candidate note domain other"
        "entry_id other = entry_id cert"
      unfolding set_deleteCertKeyList by auto
    with reuse_match_excludes_deletion [OF m] have "other \<noteq> cert" by auto
    with o show "\<exists>other \<in> set certServer. other \<noteq> cert \<and> entry_id other = entry_id cert \<and>
            deletion_candidate note domain other"
      by blast
  next
    assume "\<exists>other \<in> set certServer. other \<noteq> cert \<and> entry_id other = entry_id cert \<and>
            deletion_candidate note domain other"
    then obtain other where o: "other \<in> set certServer" "deletion_candidate note domain other"
        "entry_id other = entry_id cert"
      by blast
    then have "entry_id other \<in> entry_id ` {c \<in> set certServer. deletion_candidate note domain c}"
      by blast
    then show "entry_id cert \<in> set (deleteCertKeyList (Upload_bind_scan note domain certServer))"
      unfolding set_deleteCertKeyList o(3) .
  qed
next
  let ?ms = "filter (reuse_match note domain) certServer"
  assume k: "certKey (Upload_bind_scan note domain certServer)
      \<in> set (deleteCertKeyList (Upload_bind_scan note domain certServer))"
  then obtain c2 where c2: "c2 \<in> set certServer" "deletion_candidate note domain c2"
      "entry_id c2 = certKey (Upload_bind_scan note domain certServer)"
    unfolding set_deleteCertKeyList by auto
  from c2 have ne: "certKey (Upload_bind_scan note domain certServer) \<noteq> []"
    by (auto simp: deletion_candidate_def)
  then have nonempty: "?ms \<noteq> []" and key: "certKey (Upload_bind_scan note domain certServer) = entry_id (last ?ms)"
    by (auto simp: Upload_bind_scan_certKey split: if_splits)
  from nonempty have "last ?ms \<in> set ?ms" by (rule last_in_set)
  then have l: "last ?ms \<in> set certServer" "reuse_match note domain (last ?ms)" by auto
  from reuse_match_excludes_deletion [OF l(2)] c2(2) have "last ?ms \<noteq> c2" by auto
  with l(1) c2 key show "\<exists>c1 \<in> set certServer. \<exists>c2 \<in> set certServer. c1 \<noteq> c2 \<and> entry_id c1 = entry_id c2"
    by metis
qed

theorem Upload_bind_scan_reuse_match_not_deleted_witness:
  "entry_id (listed_object ''1'' ''allinssl-ab'' [''a.com''])
     \<notin> set (deleteCertKeyList (Upload_bind_scan ''allinssl-ab'' [''a.com'']
         [listed_object ''1'' ''allinssl-ab'' [''a.com''], listed_object ''2'' ''allinssl-ab'' [''b.com'']]))"
proof -
  let ?c = "listed_object ''1'' ''allinssl-ab'' [''a.com'']"
  let ?L = "[?c, listed_object ''2'' ''allinssl-ab'' [''b.com'']]"
  have m: "reuse_match ''allinssl-ab'' [''a.com''] ?c"
    by (simp add: reuse_match_def entry_relation_def listed_object_fields Classify_char)
  have i: "?c \<in> set ?L" by simp
  have n: "\<not> (\<exists>other \<in> set ?L. other \<noteq> ?c \<and> entry_id other = entry_id ?c \<and>
            deletion_candidate ''allinssl-ab'' [''a.com''] other)"
    by (simp add: listed_object_fields)
  from Upload_bind_scan_reuse_match_not_deleted [of ?L "''allinssl-ab''" "[''a.com'']"] i m
  have "entry_id ?c \<in> set (deleteCertKeyList (Upload_bind_scan ''allinssl-ab'' [''a.com''] ?L)) \<longleftrightarrow>
         (\<exists>other \<in> set ?L. other \<noteq> ?c \<and> entry_id other = entry_id ?c \<and>
            deletion_candidate ''allinssl-ab'' [''a.com''] other)"
    by blast
  with n show ?thesis by blast
qed

section \<open>Two runs of the reconciliation\<close>

lemma ApisixAPI_GET:
  "ApisixAPI gw a apiPath data ''GET'' w =
     (gw (sent w) \<lparr>req_method = ''GET'', req_url = ServerAddress a @ apiPath,
                   req_headers = [(''X-API-KEY'', AdminKey a)], req_body = None\<rparr>,
      w\<lparr>sent := sent w @ [\<lparr>req_method = ''GET'', req_url = ServerAddress a @ apiPath,
                   req_headers = [(''X-API-KEY'', AdminKey a)], req_body = None\<rparr>]\<rparr>)"
  by (simp add: ApisixAPI_def ToUpper_GET Let_def)

lemma ApisixAPI_POST:
  "ApisixAPI gw a apiPath data ''POST'' w =
     (gw (sent w) \<lparr>req_method = ''POST'', req_url = ServerAddress a @ apiPath,
                   req_headers = [(''Content-Type'', ''application/json''), (''X-API-KEY'', AdminKey a)],
                   req_body = Some data\<rparr>,
      w\<lparr>sent := sent w @ [\<lparr>req_method = ''POST'', req_url = ServerAddress a @ apiPath,
                   req_headers = [(''Content-Type'', ''application/json''), (''X-API-KEY'', AdminKey a)],
                   req_body = Some data\<rparr>]\<rparr>)"
  by (simp add: ApisixAPI_def ToUpper_POST Let_def)

lemma two_matches_list:
  "listCertFromApisix gateway_two_matches sample_auth world0 =
     (Inr [listed_object ''1'' ''allinssl-ab'' [''a.com''],
           listed_object_without_id ''allinssl-ab'' [''a.com'']],
      \<lparr>sent = [\<lparr>req_method = ''GET'', req_url = ''http://gw/ssls'',
                 req_headers = [(''X-API-KEY'', ''secret'')], req_body = None\<rparr>],
       printed = []\<rparr>)"
  by (simp add: listCertFromApisix_def ApisixAPI_GET gateway_two_matches_def sample_auth_def
      world0_def assert_map_def)

lemma two_matches_scan:
  "certKey (Upload_bind_scan ''allinssl-ab'' [''a.com'']
      [listed_object ''1'' ''allinssl-ab'' [''a.com''],
       listed_object_without_id ''allinssl-ab'' [''a.com'']]) = []"
  "deleteCertKeyList (Upload_bind_scan ''allinssl-ab'' [''a.com'']
      [listed_object ''1'' ''allinssl-ab'' [''a.com''],
       listed_object_without_id ''allinssl-ab'' [''a.com'']]) = []"
  by (simp_all add: Upload_bind_scan_certKey Upload_bind_scan_dels reuse_match_def
      deletion_candidate_def entry_relation_def listed_object_fields
      listed_object_without_id_fields Classify_char id_set_def)

lemma two_matches_upload:
  "uploadCertToApisix gateway_two_matches sample_auth cert key note domain
     \<lparr>sent = s, printed = p\<rparr> =
     (Inr ''2'',
      \<lparr>sent = s @ [\<lparr>req_method = ''POST'', req_url = ''http://gw/ssls'',
                 req_headers = [(''Content-Type'', ''application/json''), (''X-API-KEY'', ''secret'')],
                 req_body = Some [(''cert'', JStr cert), (''key'', JStr key), (''desc'', JStr note),
                                  (''snis'', JArr (map JStr domain))]\<rparr>],
       printed = p\<rparr>)"
  by (simp add: uploadCertToApisix_def ApisixAPI_POST gateway_two_matches_def sample_auth_def
      create_answer_def assert_float64_def assert_map_def assert_string_def)

text \<open>
  Claim C6 says that no Create is issued whenever some listed object has the note, an Exact
  relation and a non-empty id. The listing below has such an object, of id 1, followed by an
  object with the note and an Exact relation and no id. The second one overwrites the reuse
  candidate with the empty string, which the code reads as "no certificate found": it sends
  the \<open>POST\<close> and answers with the message of a fresh binding.
\<close>

theorem Upload_bind_uploads_despite_match:
  "reuse_match ''allinssl-ab'' [''a.com''] (listed_object ''1'' ''allinssl-ab'' [''a.com'']) \<and>
   entry_id (listed_object ''1'' ''allinssl-ab'' [''a.com'']) = ''1'' \<and>
   fst (listCertFromApisix gateway_two_matches sample_auth world0) =
     Inr [listed_object ''1'' ''allinssl-ab'' [''a.com''],
          listed_object_without_id ''allinssl-ab'' [''a.com'']] \<and>
   map req_method (sent (snd (Upload_bind_reconcile gateway_two_matches sample_auth
      ''CERT'' ''KEY'' ''allinssl-ab'' [''a.com''] world0))) = [''GET'', ''POST''] \<and>
   fst (Upload_bind_reconcile gateway_two_matches sample_auth
      ''CERT'' ''KEY'' ''allinssl-ab'' [''a.com''] world0) =
     Inr \<lparr>Status = ''success'', Message = ''Certificate uploaded and bound successfully'',
          Result = [(''message'', JStr msg_bound)]\<rparr>"
proof -
  have m: "reuse_match ''allinssl-ab'' [''a.com''] (listed_object ''1'' ''allinssl-ab'' [''a.com''])"
    by (simp add: reuse_match_def entry_relation_def listed_object_fields Classify_char)
  have r: "Upload_bind_reconcile gateway_two_matches sample_auth
      ''CERT'' ''KEY'' ''allinssl-ab'' [''a.com''] world0 =
     (Inr \<lparr>Status = ''success'', Message = ''Certificate uploaded and bound successfully'',
          Result = [(''message'', JStr msg_bound)]\<rparr>,
      \<lparr>sent = [\<lparr>req_method = ''GET'', req_url = ''http://gw/ssls'',
                 req_headers = [(''X-API-KEY'', ''secret'')], req_body = None\<rparr>,
               \<lparr>req_method = ''POST'', req_url = ''http://gw/ssls'',
                 req_headers = [(''Content-Type'', ''application/json''), (''X-API-KEY'', ''secret'')],
                 req_body = Some [(''cert'', JStr ''CERT''), (''key'', JStr ''KEY''),
                                  (''desc'', JStr ''allinssl-ab''),
                                  (''snis'', JArr (map JStr [''a.com'']))]\<rparr>],
       printed = []\<rparr>)"
    by (simp add: Upload_bind_reconcile_def two_matches_list two_matches_scan two_matches_upload)
  show ?thesis
    by (simp add: m r two_matches_list listed_object_fields)
qed

lemma DeleteCertFromApisix_eq:
  "DeleteCertFromApisix gw a delKey w =
     ((case gw (sent w) (delete_request a delKey) of
         Inl err \<Rightarrow> Inl (ApiCallFailed err)
       | Inr res \<Rightarrow>
           (case map_of res ''deleted'' of
              Some (JStr d) \<Rightarrow>
                (case map_of res ''key'' of
                   Some (JStr key) \<Rightarrow>
                     if path_Base key = delKey then Inr True else Inl (KeyMismatch delKey key)
                 | _ \<Rightarrow> Inl KeyNotFound)
            | _ \<Rightarrow> Inl (ApisixApiError (map_of res ''message'')))),
      w\<lparr>sent := sent w @ [delete_request a delKey]\<rparr>)"
  by (simp add: prod_eq_iff DeleteCertFromApisix_result DeleteCertFromApisix_world)

lemma failing_delete_list:
  "listCertFromApisix (gateway_failing_delete rb) sample_auth world0 =
     (Inr [listed_object ''old1'' ''allinssl-ab'' [''b.com''],
           listed_object ''old2'' ''allinssl-ab'' [''c.com'']],
      \<lparr>sent = [\<lparr>req_method = ''GET'', req_url = ''http://gw/ssls'',
                 req_headers = [(''X-API-KEY'', ''secret'')], req_body = None\<rparr>],
       printed = []\<rparr>)"
  by (simp add: listCertFromApisix_def ApisixAPI_GET gateway_failing_delete_def sample_auth_def
      world0_def assert_map_def)

lemma failing_delete_scan:
  "certKey (Upload_bind_scan ''allinssl-ab'' [''a.com'']
      [listed_object ''old1'' ''allinssl-ab'' [''b.com''],
       listed_object ''old2'' ''allinssl-ab'' [''c.com'']]) = []"
  "deleteCertKeyList (Upload_bind_scan ''allinssl-ab'' [''a.com'']
      [listed_object ''old1'' ''allinssl-ab'' [''b.com''],
       listed_object ''old2'' ''allinssl-ab'' [''c.com'']]) = [''old1'', ''old2'']"
  by (simp_all add: Upload_bind_scan_certKey Upload_bind_scan_dels reuse_match_def
      deletion_candidate_def entry_relation_def listed_object_fields Classify_char id_set_def
      add_id_def)

lemma failing_delete_upload:
  "uploadCertToApisix (gateway_failing_delete rb) sample_auth cert key note domain
     \<lparr>sent = s, printed = p\<rparr> =
     (Inr ''new'',
      \<lparr>sent = s @ [\<lparr>req_method = ''POST'', req_url = ''http://gw/ssls'',
                 req_headers = [(''Content-Type'', ''application/json''), (''X-API-KEY'', ''secret'')],
                 req_body = Some [(''cert'', JStr cert), (''key'', JStr key), (''desc'', JStr note),
                                  (''snis'', JArr (map JStr domain))]\<rparr>],
       printed = p\<rparr>)"
  by (simp add: uploadCertToApisix_def ApisixAPI_POST gateway_failing_delete_def sample_auth_def
      create_answer_def assert_float64_def assert_map_def assert_string_def)

lemma failing_delete_cleanup_rollback_fails:
  "Upload_bind_cleanup (gateway_failing_delete (Inl (LibError ''refused''))) sample_auth ''new''
     [''old1'', ''old2''] \<lparr>sent = s, printed = p\<rparr> =
     (Some (DeleteOldFailed ''old1'' (Some (ApiCallFailed (LibError ''refused'')))),
      \<lparr>sent = s @ [delete_request sample_auth ''old1'', delete_request sample_auth ''new''],
       printed = p @ [DeleteWarning ''old1'' (ApiCallFailed (LibError ''timeout'')),
                      RollbackWarning ''new'' (ApiCallFailed (LibError ''refused''))]\<rparr>)"
  by (simp add: DeleteCertFromApisix_eq gateway_failing_delete_def delete_request_def
      sample_auth_def)

lemma failing_delete_cleanup_rollback_succeeds:
  "Upload_bind_cleanup (gateway_failing_delete (Inr (delete_answer ''new''))) sample_auth ''new''
     [''old1'', ''old2''] \<lparr>sent = s, printed = p\<rparr> =
     (Some (DeleteOldFailed ''old1'' None),
      \<lparr>sent = s @ [delete_request sample_auth ''old1'', delete_request sample_auth ''new''],
       printed = p @ [DeleteWarning ''old1'' (ApiCallFailed (LibError ''timeout''))]\<rparr>)"
  by (simp add: DeleteCertFromApisix_eq gateway_failing_delete_def delete_request_def
      sample_auth_def delete_answer_def path_Base_def)

text \<open>
  Claim C2 says that, when a deletion fails after the upload, the error returned refers to
  that failure and the failure of the rollback is only logged. Here the deletion of \<open>old1\<close>
  fails with a timeout. The rollback is attempted and \<open>old2\<close> is not touched, as the claim
  says; but the error returned wraps the outcome of the rollback: its error (refused) when
  the rollback fails, nil when it succeeds. The timeout is only printed.
\<close>

theorem Upload_bind_cleanup_failure_returns_rollback_outcome:
  "fst (Upload_bind_reconcile (gateway_failing_delete (Inl (LibError ''refused''))) sample_auth
          ''CERT'' ''KEY'' ''allinssl-ab'' [''a.com''] world0) =
     Inl (DeleteOldFailed ''old1'' (Some (ApiCallFailed (LibError ''refused'')))) \<and>
   printed (snd (Upload_bind_reconcile (gateway_failing_delete (Inl (LibError ''refused''))) sample_auth
          ''CERT'' ''KEY'' ''allinssl-ab'' [''a.com''] world0)) =
     [DeleteWarning ''old1'' (ApiCallFailed (LibError ''timeout'')),
      RollbackWarning ''new'' (ApiCallFailed (LibError ''refused''))] \<and>
   map (\<lambda>r. (req_method r, req_url r))
     (sent (snd (Upload_bind_reconcile (gateway_failing_delete (Inl (LibError ''refused''))) sample_auth
          ''CERT'' ''KEY'' ''allinssl-ab'' [''a.com''] world0))) =
     [(''GET'', ''http://gw/ssls''), (''POST'', ''http://gw/ssls''),
      (''DELETE'', ''http://gw/ssls/old1''), (''DELETE'', ''http://gw/ssls/new'')] \<and>
   fst (Upload_bind_reconcile (gateway_failing_delete (Inr (delete_answer ''new''))) sample_auth
          ''CERT'' ''KEY'' ''allinssl-ab'' [''a.com''] world0) =
     Inl (DeleteOldFailed ''old1'' None)"
proof -
  have r1: "Upload_bind_reconcile (gateway_failing_delete (Inl (LibError ''refused''))) sample_auth
          ''CERT'' ''KEY'' ''allinssl-ab'' [''a.com''] world0 =
     (Inl (DeleteOldFailed ''old1'' (Some (ApiCallFailed (LibError ''refused'')))),
      \<lparr>sent = [\<lparr>req_method = ''GET'', req_url = ''http://gw/ssls'',
                 req_headers = [(''X-API-KEY'', ''secret'')], req_body = None\<rparr>,
               \<lparr>req_method = ''POST'', req_url = ''http://gw/ssls'',
                 req_headers = [(''Content-Type'', ''application/json''), (''X-API-KEY'', ''secret'')],
                 req_body = Some [(''cert'', JStr ''CERT''), (''key'', JStr ''KEY''),
                                  (''desc'', JStr ''allinssl-ab''),
                                  (''snis'', JArr (map JStr [''a.com'']))]\<rparr>,
               delete_request sample_auth ''old1'', delete_request sample_auth ''new''],
       printed = [DeleteWarning ''old1'' (ApiCallFailed (LibError ''timeout'')),
                  RollbackWarning ''new'' (ApiCallFailed (LibError ''refused''))]\<rparr>)"
    by (simp add: Upload_bind_reconcile_def failing_delete_list failing_delete_scan
        failing_delete_upload failing_delete_cleanup_rollback_fails
        del: Upload_bind_cleanup.simps)
  have r2: "fst (Upload_bind_reconcile (gateway_failing_delete (Inr (delete_answer ''new''))) sample_auth
          ''CERT'' ''KEY'' ''allinssl-ab'' [''a.com''] world0) =
     Inl (DeleteOldFailed ''old1'' None)"
    by (simp add: Upload_bind_reconcile_def failing_delete_list failing_delete_scan
        failing_delete_upload failing_delete_cleanup_rollback_succeeds
        del: Upload_bind_cleanup.simps)
  show ?thesis
    unfolding r1 r2 by (simp add: delete_request_def sample_auth_def)
qed

end
